theory Spec2Isabelle
  imports Complex_Main "HOL-Library.Product_Lexorder" "HOL-Library.Sublist" "HOL-Library.Multiset"
begin

section \<open>Python values used by the dashboard callbacks\<close>

text \<open>Exceptions that the modelled code can raise.  A raising call is the
  left injection of a sum; a returning call is the right injection.\<close>

datatype error = ParseError | IndexError | ValueError

text \<open>Python's \<open>str\<close> on an integer: decimal digits, most significant first,
  with a leading minus sign for negative numbers.\<close>

function str_nat :: "nat \<Rightarrow> string" where
  "str_nat n =
     (if n < 10 then [''0123456789'' ! n]
      else str_nat (n div 10) @ [''0123456789'' ! (n mod 10)])"
  by pat_completeness auto
termination
  by (relation "measure (\<lambda>n. n)") auto

declare str_nat.simps [simp del]

definition str_int :: "int \<Rightarrow> string" where
  "str_int i = (if i < 0 then CHR ''-'' # str_nat (nat (- i)) else str_nat (nat i))"

section \<open>The classification report as a table\<close>

text \<open>One row of the cumulative Kraken report \<open>raw_df\<close>, columns 0 to 5 in
  file order (percent, cumulative reads, reads assigned to the taxon itself,
  rank code, taxonomy id, name), together with the depth that the indentation
  of the name encodes.  The percentage is a float in the program; it is kept
  as the rational that the float denotes, and every float operation applied to
  it enters the model as a parameter.\<close>

record taxon_record =
  percent :: rat
  reads_cumulative :: nat
  reads_assigned :: nat
  rank_code :: string
  tax_id :: int
  name :: string
  depth :: nat

type_synonym kreport = "taxon_record list"

text \<open>The table of \<open>get_qc_df\<close>: one row per processed batch.  Column 0 is the
  time stamp; the placeholder table that stands for "no data yet" has the
  string \<open>0.0\<close> there.\<close>

record qc_row =
  qc_time :: string
  qc_reads :: nat
  qc_bp :: nat
  cumulative_reads :: nat
  cumulative_bp :: nat

type_synonym qc_df = "qc_row list"

section \<open>Files waiting to be processed\<close>

text \<open>What \<open>update_waiting_files\<close> reads: whether the nanopore output directory
  exists, its listing, and the table that \<open>get_qc_df\<close> returns for the QC file.\<close>

record waiting_env =
  nanopore_is_dir :: bool
  nanop_files :: "string list"
  qc_df_2 :: qc_df

text \<open>The local variable \<open>files_processed\<close>: 0 for the placeholder table,
  otherwise the number of rows.  It is only evaluated on a table with a row
  (\<open>iloc[0,0]\<close> raises on an empty one, see \<open>update_waiting_files\<close>).\<close>

definition files_processed :: "qc_df \<Rightarrow> int" where
  "files_processed df =
     (case df of [] \<Rightarrow> 0
      | r # rs \<Rightarrow> if qc_time r = ''0.0'' then 0 else int (length df))"

text \<open>The local variable \<open>delta\<close> after the guard \<open>if delta < 0: delta = 0\<close>.\<close>

definition waiting_delta :: "string list \<Rightarrow> qc_df \<Rightarrow> int" where
  "waiting_delta files df =
     (let delta = int (length files) - files_processed df
      in if delta < 0 then 0 else delta)"

definition update_waiting_files :: "waiting_env \<Rightarrow> error + (string \<times> string)" where
  "update_waiting_files env =
     (if nanopore_is_dir env then
        (case qc_df_2 env of
           [] \<Rightarrow> Inl IndexError
         | r # rs \<Rightarrow>
             Inr (''Files awaiting processing: '' @ str_int (waiting_delta (nanop_files env) (qc_df_2 env)),
                  ''Files processed: '' @ str_int (files_processed (qc_df_2 env))))
      else Inr (''Files awaiting processing: '', ''Files processed: ''))"

section \<open>The table of species of interest\<close>











section \<open>Classified and unclassified totals\<close>

text \<open>The float operations of \<open>update_qc_text\<close>, as parameters: rounding to
  one decimal, printing a float, and true division of two integers.\<close>

record float_ops =
  round1 :: "rat \<Rightarrow> rat"
  str_float :: "rat \<Rightarrow> string"
  true_div :: "int \<Rightarrow> int \<Rightarrow> rat"

text \<open>The numbers \<open>c\<close>, \<open>u\<close>, \<open>t\<close>, \<open>pc\<close> and \<open>pu\<close> that \<open>update_qc_text\<close>
  reads off the report: cell \<open>[1,1]\<close> and \<open>[0,1]\<close> are cumulative reads, cell
  \<open>[1,0]\<close> and \<open>[0,0]\<close> are percentages.  \<open>iloc\<close> raises on a table with fewer
  than two rows.\<close>

record totals =
  classified :: int
  unclassified :: int
  total :: int
  pct_classified :: rat
  pct_unclassified :: rat

definition qc_totals :: "float_ops \<Rightarrow> kreport \<Rightarrow> error + totals" where
  "qc_totals fo raw =
     (if length raw < 2 then Inl IndexError
      else
        (let c = int (reads_cumulative (raw ! 1));
             u = int (reads_cumulative (raw ! 0));
             t = c + u;
             pc = round1 fo (percent (raw ! 1));
             pu = round1 fo (percent (raw ! 0))
         in Inr \<lparr>classified = c, unclassified = u, total = t,
                  pct_classified = pc, pct_unclassified = pu\<rparr>))"

text \<open>The filter settings of the configuration file that \<open>update_qc_text\<close> prints.\<close>

record filter_config =
  q_filt :: string
  l_filt :: string
  lc_filt :: string
  a_trim :: string

record qc_text =
  total_reads :: string
  classified_reads :: string
  unclassified_reads :: string
  unfiltered_reads :: string
  filtered_proportion :: string
  q_text :: "string \<times> string"
  l_text :: "string \<times> string"
  lc_text :: "string \<times> string"
  a_text :: "string \<times> string"

definition on_off :: "bool \<Rightarrow> string" where
  "on_off off = (if off then ''Off'' else ''On'')"

definition update_qc_text :: "float_ops \<Rightarrow> filter_config \<Rightarrow> kreport \<Rightarrow> qc_df \<Rightarrow> error + qc_text" where
  "update_qc_text fo cfg raw qc_df_b =
     (case qc_totals fo raw of
        Inl e \<Rightarrow> Inl e
      | Inr tt \<Rightarrow>
          (case qc_df_b of
             [] \<Rightarrow> Inl IndexError
           | r # rs \<Rightarrow>
               (let tot_reads_pre_filt = int (cumulative_reads (last qc_df_b))
                in Inr \<lparr>total_reads = ''Total reads (post filtering): '' @ str_int (total tt),
                         classified_reads = ''Classified reads: '' @ str_int (classified tt)
                            @ '' ('' @ str_float fo (pct_classified tt) @ '' %)'',
                         unclassified_reads = ''Unclassified reads: '' @ str_int (unclassified tt)
                            @ '' ('' @ str_float fo (pct_unclassified tt) @ '' %)'',
                         unfiltered_reads = ''Total reads (pre filtering): '' @ str_int tot_reads_pre_filt,
                         filtered_proportion = ''Reads that passed filtering: ''
                            @ str_float fo (round1 fo (true_div fo (total tt * 100) tot_reads_pre_filt)) @ '' %'',
                         q_text = (''Quality filter: '', on_off (q_filt cfg = ''-Q'')),
                         l_text = (''Length filter: '', on_off (l_filt cfg = ''-L'')),
                         lc_text = (''Low complexity filter: '', on_off (lc_filt cfg = [])),
                         a_text = (''Adapter trimming: '', on_off (a_trim cfg = ''-A''))\<rparr>)))"

section \<open>The taxonomic tree\<close>

text \<open>The helper scripts of the package \<open>gui_scripts\<close> (\<open>kreport2_df\<close>,
  \<open>domain_filtering\<close>, \<open>tax_hierarchy_list\<close>, \<open>get_result_matrix\<close>,
  \<open>get_rev_matrix\<close>, \<open>create_edges\<close>, \<open>filter_by_top\<close>, \<open>format_sankey\<close>,
  \<open>icicle_sunburst_data\<close>, \<open>sankey_placeholder\<close>) are imported by
  \<open>nanometa_gui.py\<close> but are not among the sources.  The callbacks that call
  them are modelled over a record of helpers (section "The Sankey callback");
  the components that the specification describes are modelled here, from the
  specification, and plugged into that record in \<open>spec_scripts\<close>.\<close>

record node =
  nid :: nat
  rcd :: taxon_record
  parent_id :: "nat option"

text \<open>Modelled from the spec: the routing of the two reserved summary rows,
  which is done inside the missing scripts (section 4.1: "The two reserved
  summary rows are identified by fixed position (first two rows) and routed to
  a side-channel total record, not into the tree").\<close>

definition reserved_rows :: "kreport \<Rightarrow> kreport" where
  "reserved_rows raw = take 2 raw"

definition tree_rows :: "kreport \<Rightarrow> kreport" where
  "tree_rows raw = drop 2 raw"

text \<open>Modelled from the spec: HierarchyIndexer (section 4.2), whose code is
  not among the sources.  "Walks TaxonRecord rows in order, maintaining a
  stack of (depth, node_id) pairs.  For a row at depth d: pop the stack while
  its top has depth \<ge> d; the new node's parent is the (possibly absent) new
  stack top; assign the next sequential integer id; push (d, id)."\<close>

fun pop_stack :: "(nat \<times> nat) list \<Rightarrow> nat \<Rightarrow> (nat \<times> nat) list" where
  "pop_stack [] d = []"
| "pop_stack ((d', i) # stack) d = (if d \<le> d' then pop_stack stack d else (d', i) # stack)"

fun index_rows :: "(nat \<times> nat) list \<Rightarrow> nat \<Rightarrow> taxon_record list \<Rightarrow> node list" where
  "index_rows stack next_id [] = []"
| "index_rows stack next_id (r # rows) =
     (let stack' = pop_stack stack (depth r)
      in \<lparr>nid = next_id, rcd = r,
           parent_id = (case stack' of [] \<Rightarrow> None | (d, i) # below \<Rightarrow> Some i)\<rparr>
         # index_rows ((depth r, next_id) # stack') (Suc next_id) rows)"

definition hierarchy_indexer :: "taxon_record list \<Rightarrow> node list" where
  "hierarchy_indexer rows = index_rows [] 0 rows"

text \<open>Modelled from the spec: DomainFilter (section 4.3), the missing script
  \<open>domain_filtering\<close>.  "A node survives iff its ancestor chain to the root
  never passes through a Domain-rank node outside the allowed set.  Single
  O(n) pass using parent pointers."  The pass goes through the table in id
  order and remembers the ids kept so far: a node is kept when it is not
  itself a Domain-rank node outside the allowed set and its parent, if it has
  one, was kept.  Domain rank is the rank code \<open>D\<close>.\<close>

definition domain_allowed :: "string list \<Rightarrow> node \<Rightarrow> bool" where
  "domain_allowed allowed n =
     (if rank_code (rcd n) = ''D'' then name (rcd n) \<in> set allowed else True)"

fun prune :: "string list \<Rightarrow> nat list \<Rightarrow> node list \<Rightarrow> node list" where
  "prune allowed kept [] = []"
| "prune allowed kept (n # ns) =
     (if domain_allowed allowed n \<and> (case parent_id n of None \<Rightarrow> True | Some p \<Rightarrow> p \<in> set kept)
      then n # prune allowed (nid n # kept) ns
      else prune allowed kept ns)"

definition domain_filter :: "node list \<Rightarrow> string list \<Rightarrow> node list" where
  "domain_filter T allowed = prune allowed [] T"

section \<open>Edges of the Sankey plot\<close>

text \<open>A row of \<open>edges_df\<close>: source and target are indices into the label list.\<close>

record edge =
  source :: nat
  target :: nat
  weight :: nat
  elabel :: string

text \<open>A row of \<open>result_matrix\<close>: taxon name, reads assigned and rank letter of
  a node of the plot; the row index is the node's number in the plot.\<close>

type_synonym result_matrix = "(string \<times> nat \<times> string) list"

type_synonym id_dict = "((string \<times> int) \<times> nat) list"

text \<open>Modelled from the spec: the node numbering of the missing script
  \<open>get_result_matrix\<close>.  The nodes of the plot are the nodes of the pruned
  tree that can be an end point of an edge: those whose rank letter is
  selected, and the forest roots (the root is the source of the first column
  in the example of section 8).  They are numbered in table order, and "a
  name to id lookup must be keyed by (name, tax_id), never by name alone"
  (section 4.2).\<close>

definition is_endpoint :: "string list \<Rightarrow> node \<Rightarrow> bool" where
  "is_endpoint letters n = (rank_code (rcd n) \<in> set letters \<or> parent_id n = None)"

definition node_key :: "node \<Rightarrow> string \<times> int" where
  "node_key n = (name (rcd n), tax_id (rcd n))"

definition result_row :: "node \<Rightarrow> string \<times> nat \<times> string" where
  "result_row n = (name (rcd n), reads_assigned (rcd n), rank_code (rcd n))"

definition spec_get_result_matrix :: "node list \<Rightarrow> string list \<Rightarrow> result_matrix \<times> id_dict" where
  "spec_get_result_matrix d_filt_df tax_letters =
     (let plot_nodes = filter (is_endpoint tax_letters) d_filt_df
      in (map result_row plot_nodes, zip (map node_key plot_nodes) [0..<length plot_nodes]))"

text \<open>Modelled from the spec: the ancestor chains that the missing script
  \<open>get_rev_matrix\<close> prepares "to assign parent clades", not filtered by rank
  letters.  Row i is node i of the pruned table followed by its ancestors,
  nearest first; the chains are built in one pass, a node's chain extending
  the chain already stored for its parent.\<close>

fun lineages :: "(nat \<times> node list) list \<Rightarrow> node list \<Rightarrow> node list list" where
  "lineages known [] = []"
| "lineages known (n # ns) =
     (let chain = n # (case parent_id n of None \<Rightarrow> []
                        | Some p \<Rightarrow> (case map_of known p of None \<Rightarrow> [] | Some c \<Rightarrow> c))
      in chain # lineages ((nid n, chain) # known) ns)"

definition spec_get_rev_matrix :: "node list \<Rightarrow> node list list" where
  "spec_get_rev_matrix d_filt_df = lineages [] d_filt_df"

text \<open>Modelled from the spec: EdgeBuilder (section 4.4), the missing script
  \<open>create_edges\<close>.  "For every surviving node, determine its effective parent
  as the nearest strict ancestor whose rank is in the selected set (rank
  compression) [...] One edge per (effective parent, node) pair where node's
  own rank is selected; weight = node's reads_assigned."  A forest root counts
  as an end point whatever its rank (see \<open>is_endpoint\<close>); the label of an edge
  is the name of its target.\<close>

fun edge_of :: "id_dict \<Rightarrow> string list \<Rightarrow> node list \<Rightarrow> edge option" where
  "edge_of d letters [] = None"
| "edge_of d letters (n # ancestors) =
     (if rank_code (rcd n) \<in> set letters then
        (case find (is_endpoint letters) ancestors of
           None \<Rightarrow> None
         | Some p \<Rightarrow>
             (case (map_of d (node_key p), map_of d (node_key n)) of
                (Some s, Some t) \<Rightarrow>
                  Some \<lparr>source = s, target = t, weight = reads_assigned (rcd n), elabel = name (rcd n)\<rparr>
              | _ \<Rightarrow> None))
      else None)"

definition spec_create_edges :: "node list list \<Rightarrow> id_dict \<Rightarrow> string list \<Rightarrow> edge list" where
  "spec_create_edges rev_matrix d rev_tax_letters =
     List.map_filter (edge_of d rev_tax_letters) rev_matrix"

text \<open>Modelled from the spec: TopNSelector (section 4.5), the missing script
  \<open>filter_by_top\<close>.  "Operates per rank level (column) independently. [...]
  sort children by reads_assigned descending, ties broken by ascending node
  id; keep only the top K [...] dropped siblings are removed from the edge set
  entirely".  The unit of the selection is the rank level: section 8 has
  "never emits more than K real edges per column", and the dashboard describes
  its own filter as "the top 5 taxa with the highest reads at each level will
  be included [...] Since the plot automatically fills in the lineage, some
  levels may contain more taxa than this" (the sources of the edges kept for
  the next level stay in the plot).  An edge belongs to the column of its
  target's rank letter.\<close>

definition rank_at :: "result_matrix \<Rightarrow> nat \<Rightarrow> string option" where
  "rank_at rm i = (if i < length rm then Some (snd (snd (rm ! i))) else None)"

definition column_edges :: "result_matrix \<Rightarrow> edge list \<Rightarrow> string \<Rightarrow> edge list" where
  "column_edges rm edges c = filter (\<lambda>e. rank_at rm (target e) = Some c) edges"

definition sort_children :: "edge list \<Rightarrow> edge list" where
  "sort_children es = sort_key (\<lambda>e. (- int (weight e), target e)) es"

definition select_column :: "nat \<Rightarrow> result_matrix \<Rightarrow> edge list \<Rightarrow> string \<Rightarrow> edge list" where
  "select_column K rm edges c = take K (sort_children (column_edges rm edges c))"

definition top_edges :: "nat \<Rightarrow> result_matrix \<Rightarrow> edge list \<Rightarrow> string list \<Rightarrow> edge list" where
  "top_edges K rm edges letters = concat (map (select_column K rm edges) letters)"

text \<open>Modelled from the spec: the ghost padding of the same script.  "After
  building real edges for every column, compute the maximum column width
  across all columns and append ghost nodes (label "none", weight 0, no edges)
  to every narrower column until all columns have equal width.  Output: node
  label list, edge arrays [...] and the count of ghost nodes appended."  The
  real nodes of a column are the rows of \<open>result_matrix\<close> with the column's rank
  letter: these are the nodes whose labels \<open>create_sankey_data\<close> emits, whatever
  the selector drops (a row whose rank letter is not selected, such as the
  root, is in no column of the grid).  A column is padded one ghost node at a
  time, and the count reported is the number of ghost nodes found in the
  padded grid.\<close>

datatype plot_node = Real nat | Ghost

definition real_column :: "result_matrix \<Rightarrow> string \<Rightarrow> nat list" where
  "real_column rm c = filter (\<lambda>i. rank_at rm i = Some c) [0..<length rm]"

definition column_grid :: "result_matrix \<Rightarrow> string list \<Rightarrow> plot_node list list" where
  "column_grid rm letters = map (\<lambda>c. map Real (real_column rm c)) letters"

definition max_width :: "plot_node list list \<Rightarrow> nat" where
  "max_width grid = fold max (map length grid) 0"

function pad_to :: "nat \<Rightarrow> plot_node list \<Rightarrow> plot_node list" where
  "pad_to w col = (if length col < w then pad_to w (col @ [Ghost]) else col)"
  by pat_completeness auto
termination
  by (relation "measure (\<lambda>(w, col). w - length col)") auto

declare pad_to.simps [simp del]

definition padded_grid :: "result_matrix \<Rightarrow> string list \<Rightarrow> plot_node list list" where
  "padded_grid rm letters =
     (let grid = column_grid rm letters in map (pad_to (max_width grid)) grid)"

definition count_ghosts :: "plot_node list list \<Rightarrow> nat" where
  "count_ghosts grid = sum_list (map (\<lambda>col. length (filter (\<lambda>x. x = Ghost) col)) grid)"

definition spec_filter_by_top ::
  "nat \<Rightarrow> edge list \<Rightarrow> result_matrix \<Rightarrow> string list \<Rightarrow> string list \<Rightarrow> edge list \<times> nat" where
  "spec_filter_by_top top_filter edges_df rm tax_letters rev_tax_letters =
     (top_edges top_filter rm edges_df tax_letters, count_ghosts (padded_grid rm tax_letters))"

section \<open>The output shapes\<close>

record sankey_data =
  labels :: "string list"
  link_source :: "nat list"
  link_target :: "nat list"
  link_value :: "nat list"
  link_label :: "string list"
  pad :: nat

text \<open>Modelled from the spec: LayoutFormatter (section 4.7), the missing script
  \<open>format_sankey\<close>.  "Sankey shape: {labels: ordered list, links: {source[],
  target[], value[], label[]}} with all four link arrays of equal length [...]
  a pad constant is passed through unchanged [...] pure projections of their
  respective builders' output".\<close>

definition spec_format_sankey :: "edge list \<Rightarrow> string list \<Rightarrow> nat \<Rightarrow> sankey_data" where
  "spec_format_sankey top_df label pad_const =
     \<lparr>labels = label, link_source = map source top_df, link_target = map target top_df,
      link_value = map weight top_df, link_label = map elabel top_df, pad = pad_const\<rparr>"

text \<open>Modelled from the spec: the missing script \<open>tax_hierarchy_list\<close> ("a list
  and a reversed list" of the selected rank letters).\<close>

definition spec_tax_hierarchy_list :: "string list \<Rightarrow> string list \<times> string list" where
  "spec_tax_hierarchy_list clade_list = (clade_list, rev clade_list)"

section \<open>Ancestor-path rows\<close>

record path_row =
  taxon :: string
  parent :: string
  reads :: nat

text \<open>Modelled from the spec: PathBuilder (section 4.6), the table part of the
  missing script \<open>icicle_sunburst_data\<close>.  "Applies one global minimum-reads
  threshold t.  A node (and its entire ancestor chain) is retained iff
  node.reads_assigned \<ge> t.  Output is a flat set of (taxon_label,
  parent_label, reads_assigned) rows; the root's parent field is the
  empty-string sentinel.  Label collisions (two retained nodes sharing a name
  across different branches) are disambiguated by suffixing the node id onto
  the label".  The retained nodes are found in one pass from the last row to
  the first, which carries the ids of the parents that retained nodes ask
  for.\<close>

fun retain_up :: "int \<Rightarrow> nat list \<Rightarrow> node list \<Rightarrow> node list" where
  "retain_up t wanted [] = []"
| "retain_up t wanted (n # ns) =
     (if t \<le> int (reads_assigned (rcd n)) \<or> nid n \<in> set wanted
      then n # retain_up t (case parent_id n of None \<Rightarrow> wanted | Some p \<Rightarrow> p # wanted) ns
      else retain_up t wanted ns)"

definition retained :: "node list \<Rightarrow> int \<Rightarrow> node list" where
  "retained T t = rev (retain_up t [] (rev T))"

definition path_label :: "node list \<Rightarrow> node \<Rightarrow> string" where
  "path_label kept n =
     (if 1 < length (filter (\<lambda>m. name (rcd m) = name (rcd n)) kept)
      then name (rcd n) @ str_nat (nid n) else name (rcd n))"

definition parent_label :: "node list \<Rightarrow> node \<Rightarrow> string" where
  "parent_label kept n =
     (case parent_id n of
        None \<Rightarrow> []
      | Some p \<Rightarrow> (case find (\<lambda>m. nid m = p) kept of None \<Rightarrow> [] | Some m \<Rightarrow> path_label kept m))"

definition path_row_of :: "node list \<Rightarrow> node \<Rightarrow> path_row" where
  "path_row_of kept n =
     \<lparr>taxon = path_label kept n, parent = parent_label kept n, reads = reads_assigned (rcd n)\<rparr>"

definition path_builder :: "node list \<Rightarrow> int \<Rightarrow> path_row list" where
  "path_builder T t = (let kept = retained T t in map (path_row_of kept) kept)"

section \<open>The Sankey callback\<close>

text \<open>The helper scripts that \<open>create_sankey_data\<close>, \<open>update_sunburst\<close> and
  \<open>update_icicle\<close> call, as a record of functions.  \<open>kreport2_df\<close> is given the
  text of the report file and may raise.\<close>

record gui_scripts =
  kreport2_df :: "string \<Rightarrow> error + kreport"
  domain_filtering :: "kreport \<Rightarrow> string list \<Rightarrow> node list"
  tax_hierarchy_list :: "string list \<Rightarrow> string list \<times> string list"
  get_result_matrix :: "node list \<Rightarrow> string list \<Rightarrow> result_matrix \<times> id_dict"
  get_rev_matrix :: "node list \<Rightarrow> node list list"
  create_edges :: "node list list \<Rightarrow> id_dict \<Rightarrow> string list \<Rightarrow> edge list"
  filter_by_top :: "nat \<Rightarrow> edge list \<Rightarrow> result_matrix \<Rightarrow> string list \<Rightarrow> string list \<Rightarrow> edge list \<times> nat"
  format_sankey :: "edge list \<Rightarrow> string list \<Rightarrow> nat \<Rightarrow> sankey_data"
  icicle_sunburst_data :: "kreport \<Rightarrow> string list \<Rightarrow> int \<Rightarrow> path_row list"
  placeholder_data :: sankey_data

text \<open>The global variables that the callbacks share.\<close>

record gui_state =
  raw_df :: kreport
  update_disabled :: bool

text \<open>\<open>top_df.sort_values('target', ascending=False)\<close>: rows in descending
  order of the column \<open>target\<close>.  The sort algorithm is pandas' default, which
  promises no order among rows with equal targets; the definition leaves
  such rows in the order they had, and nothing below relies on that choice.\<close>

definition sort_values_target_desc :: "edge list \<Rightarrow> edge list" where
  "sort_values_target_desc top_df = sort_key (\<lambda>e. - int (target e)) top_df"

text \<open>\<open>create_sankey_data\<close> from the call of \<open>tax_hierarchy_list\<close> to the end:
  the steps applied to the domain-filtered table \<open>d_filt_df\<close>.\<close>

definition sankey_of_filtered :: "gui_scripts \<Rightarrow> node list \<Rightarrow> string list \<Rightarrow> nat \<Rightarrow> sankey_data" where
  "sankey_of_filtered g d_filt_df clade_list top_filter =
     (let (tax_letters, rev_tax_letters) = tax_hierarchy_list g clade_list;
          (rm, d) = get_result_matrix g d_filt_df tax_letters;
          rev_matrix = get_rev_matrix g d_filt_df;
          edges_df = create_edges g rev_matrix d rev_tax_letters;
          (top_df, ghost_nodes) = filter_by_top g top_filter edges_df rm tax_letters rev_tax_letters;
          top_df = sort_values_target_desc top_df;
          label = map fst rm @ replicate ghost_nodes ''none''
      in format_sankey g top_df label 30)"

text \<open>\<open>create_sankey_data\<close>.  The argument \<open>kreport_file\<close> is the text of the
  report file, or \<open>None\<close> when \<open>os.path.isfile\<close> is false.  The result is the
  returned value, or the exception that leaves the function, together with
  the global variables after the call.\<close>

definition create_sankey_data ::
  "gui_scripts \<Rightarrow> gui_state \<Rightarrow> string option \<Rightarrow> string list \<Rightarrow> string list \<Rightarrow> nat
     \<Rightarrow> (error + sankey_data) \<times> gui_state" where
  "create_sankey_data g st kreport_file selected_domains clade_list top_filter =
     (if \<not> update_disabled st then
        (case kreport_file of
           None \<Rightarrow> (Inr (placeholder_data g), st)
         | Some content \<Rightarrow>
             (case kreport2_df g content of
                Inl e \<Rightarrow> (Inl e, st)
              | Inr df \<Rightarrow>
                  (Inr (sankey_of_filtered g (domain_filtering g df selected_domains) clade_list top_filter),
                   st\<lparr>raw_df := df\<rparr>)))
      else
        (Inr (sankey_of_filtered g (domain_filtering g (raw_df st) selected_domains) clade_list top_filter),
         st))"


text \<open>The record of helpers with the components modelled from the
  specification; the report parser and the placeholder stay parameters.\<close>

definition spec_scripts :: "(string \<Rightarrow> error + kreport) \<Rightarrow> sankey_data \<Rightarrow> gui_scripts" where
  "spec_scripts parser placeholder =
     \<lparr>kreport2_df = parser,
      domain_filtering = (\<lambda>raw allowed. domain_filter (hierarchy_indexer (tree_rows raw)) allowed),
      tax_hierarchy_list = spec_tax_hierarchy_list,
      get_result_matrix = spec_get_result_matrix,
      get_rev_matrix = spec_get_rev_matrix,
      create_edges = spec_create_edges,
      filter_by_top = spec_filter_by_top,
      format_sankey = spec_format_sankey,
      icicle_sunburst_data =
        (\<lambda>raw domains t. path_builder (domain_filter (hierarchy_indexer (tree_rows raw)) domains) t),
      placeholder_data = placeholder\<rparr>"

section \<open>Example inputs\<close>

text \<open>A directory with one file left over while the QC table already records
  three processed batches.\<close>

definition stale_env :: waiting_env where
  "stale_env = \<lparr>nanopore_is_dir = True, nanop_files = [''a.fastq''],
     qc_df_2 = [\<lparr>qc_time = ''10:00'', qc_reads = 5, qc_bp = 50, cumulative_reads = 5, cumulative_bp = 50\<rparr>,
                \<lparr>qc_time = ''10:05'', qc_reads = 5, qc_bp = 50, cumulative_reads = 10, cumulative_bp = 100\<rparr>,
                \<lparr>qc_time = ''10:10'', qc_reads = 5, qc_bp = 50, cumulative_reads = 15, cumulative_bp = 150\<rparr>]\<rparr>"



text \<open>The tree of the example in section 8 of the specification: a root, the
  domain Bacteria below it and a genus below the domain.  The fields that the
  example leaves open are filled in.\<close>

definition example_rows :: "taxon_record list" where
  "example_rows =
    [\<lparr>percent = 100, reads_cumulative = 100, reads_assigned = 20, rank_code = ''R'', tax_id = 1, name = ''root'', depth = 0\<rparr>,
     \<lparr>percent = 80, reads_cumulative = 80, reads_assigned = 10, rank_code = ''D'', tax_id = 2, name = ''Bacteria'', depth = 1\<rparr>,
     \<lparr>percent = 80, reads_cumulative = 80, reads_assigned = 80, rank_code = ''G'', tax_id = 561, name = ''E.coli'', depth = 2\<rparr>]"

text \<open>A tree with two domains, each with one phylum.\<close>

definition two_domain_rows :: "taxon_record list" where
  "two_domain_rows =
    [\<lparr>percent = 100, reads_cumulative = 100, reads_assigned = 0, rank_code = ''R'', tax_id = 1, name = ''root'', depth = 0\<rparr>,
     \<lparr>percent = 60, reads_cumulative = 60, reads_assigned = 10, rank_code = ''D'', tax_id = 2, name = ''Bacteria'', depth = 1\<rparr>,
     \<lparr>percent = 50, reads_cumulative = 50, reads_assigned = 50, rank_code = ''P'', tax_id = 1224, name = ''Pseudomonadota'', depth = 2\<rparr>,
     \<lparr>percent = 40, reads_cumulative = 40, reads_assigned = 10, rank_code = ''D'', tax_id = 2157, name = ''Archaea'', depth = 1\<rparr>,
     \<lparr>percent = 30, reads_cumulative = 30, reads_assigned = 30, rank_code = ''P'', tax_id = 28890, name = ''Euryarchaeota'', depth = 2\<rparr>]"

text \<open>A report whose two summary rows stand before the example tree, and float
  operations that leave a percentage as it is.\<close>

definition summary_report :: kreport where
  "summary_report =
     \<lparr>percent = 20, reads_cumulative = 25, reads_assigned = 25, rank_code = ''U'', tax_id = 0, name = ''unclassified'', depth = 0\<rparr>
   # \<lparr>percent = 80, reads_cumulative = 100, reads_assigned = 20, rank_code = ''R'', tax_id = 1, name = ''root'', depth = 0\<rparr>
   # example_rows"

definition id_ops :: float_ops where
  "id_ops = \<lparr>round1 = (\<lambda>x. x), str_float = (\<lambda>x. ''?''), true_div = (\<lambda>a b. 0)\<rparr>"

text \<open>A placeholder plot, a report parser that accepts one text only, and
  three states of the global variables: live update on with a report loaded,
  live update on with nothing loaded yet, and live update off.\<close>

definition empty_sankey :: sankey_data where
  "empty_sankey = \<lparr>labels = [], link_source = [], link_target = [], link_value = [], link_label = [], pad = 30\<rparr>"

definition toy_parser :: "string \<Rightarrow> error + kreport" where
  "toy_parser content = (if content = ''report'' then Inr summary_report else Inl ParseError)"

definition live_state :: gui_state where
  "live_state = \<lparr>raw_df = summary_report, update_disabled = False\<rparr>"


definition paused_state :: gui_state where
  "paused_state = \<lparr>raw_df = summary_report, update_disabled = True\<rparr>"



text \<open>A tree in which two genera of the same domain have equally many reads.\<close>

definition tied_rows :: "taxon_record list" where
  "tied_rows =
    [\<lparr>percent = 100, reads_cumulative = 20, reads_assigned = 0, rank_code = ''R'', tax_id = 1, name = ''root'', depth = 0\<rparr>,
     \<lparr>percent = 100, reads_cumulative = 20, reads_assigned = 10, rank_code = ''D'', tax_id = 2, name = ''Bacteria'', depth = 1\<rparr>,
     \<lparr>percent = 25, reads_cumulative = 5, reads_assigned = 5, rank_code = ''G'', tax_id = 561, name = ''Escherichia'', depth = 2\<rparr>,
     \<lparr>percent = 25, reads_cumulative = 5, reads_assigned = 5, rank_code = ''G'', tax_id = 590, name = ''Salmonella'', depth = 2\<rparr>]"

text \<open>A tree with two domains and two phyla in each, its result matrix for
  the rank letters D and P, and its edges.\<close>

definition four_phyla_rows :: "taxon_record list" where
  "four_phyla_rows =
    [\<lparr>percent = 100, reads_cumulative = 100, reads_assigned = 0, rank_code = ''R'', tax_id = 1, name = ''root'', depth = 0\<rparr>,
     \<lparr>percent = 60, reads_cumulative = 60, reads_assigned = 10, rank_code = ''D'', tax_id = 2, name = ''Bacteria'', depth = 1\<rparr>,
     \<lparr>percent = 30, reads_cumulative = 30, reads_assigned = 30, rank_code = ''P'', tax_id = 1224, name = ''Pseudomonadota'', depth = 2\<rparr>,
     \<lparr>percent = 20, reads_cumulative = 20, reads_assigned = 20, rank_code = ''P'', tax_id = 1239, name = ''Bacillota'', depth = 2\<rparr>,
     \<lparr>percent = 40, reads_cumulative = 40, reads_assigned = 10, rank_code = ''D'', tax_id = 2157, name = ''Archaea'', depth = 1\<rparr>,
     \<lparr>percent = 20, reads_cumulative = 20, reads_assigned = 20, rank_code = ''P'', tax_id = 28890, name = ''Euryarchaeota'', depth = 2\<rparr>,
     \<lparr>percent = 10, reads_cumulative = 10, reads_assigned = 10, rank_code = ''P'', tax_id = 28889, name = ''Thermoproteota'', depth = 2\<rparr>]"

definition four_phyla_matrix :: result_matrix where
  "four_phyla_matrix =
     [(''root'', 0, ''R''), (''Bacteria'', 10, ''D''), (''Pseudomonadota'', 30, ''P''),
      (''Bacillota'', 20, ''P''), (''Archaea'', 10, ''D''), (''Euryarchaeota'', 20, ''P''),
      (''Thermoproteota'', 10, ''P'')]"

definition four_phyla_edges :: "edge list" where
  "four_phyla_edges =
     [\<lparr>source = 0, target = 1, weight = 10, elabel = ''Bacteria''\<rparr>,
      \<lparr>source = 1, target = 2, weight = 30, elabel = ''Pseudomonadota''\<rparr>,
      \<lparr>source = 1, target = 3, weight = 20, elabel = ''Bacillota''\<rparr>,
      \<lparr>source = 0, target = 4, weight = 10, elabel = ''Archaea''\<rparr>,
      \<lparr>source = 4, target = 5, weight = 20, elabel = ''Euryarchaeota''\<rparr>,
      \<lparr>source = 4, target = 6, weight = 10, elabel = ''Thermoproteota''\<rparr>]"

section \<open>Properties\<close>

subsection \<open>Decimal rendering\<close>

lemma digit_in: "n < 10 \<Longrightarrow> ''0123456789'' ! n \<in> set ''0123456789''"
  by (rule nth_mem) simp

lemma str_nat_digits: "set (str_nat n) \<subseteq> set ''0123456789''"
proof (induction n rule: str_nat.induct)
  case (1 n)
  show ?case
  proof (cases "n < 10")
    case True
    then show ?thesis using digit_in [of n] by (subst str_nat.simps) simp
  next
    case False
    have "n mod 10 < 10" by simp
    then have "''0123456789'' ! (n mod 10) \<in> set ''0123456789''" by (rule digit_in)
    with False 1 show ?thesis by (subst str_nat.simps) simp
  qed
qed

lemma str_int_no_minus: "0 \<le> i \<Longrightarrow> CHR ''-'' \<notin> set (str_int i)"
  using str_nat_digits [of "nat i"] by (auto simp: str_int_def)

lemma str_int_0: "str_int 0 = ''0''"
  by (simp add: str_int_def str_nat.simps)

lemma str_int_3: "str_int 3 = ''3''"
  by (simp add: str_int_def str_nat.simps)

subsection \<open>Files awaiting processing\<close>

lemma waiting_delta_eq: "waiting_delta files df = max 0 (int (length files) - files_processed df)"
  by (simp add: waiting_delta_def Let_def max_def)

text \<open>C10.  When the nanopore directory exists (and the QC table has its first
  row, which \<open>get_qc_df\<close> always provides), the number shown after "Files
  awaiting processing" is the number of files in the directory minus the
  number of processed files, clamped below at 0: it is never negative and its
  rendering has no minus sign, also when stale files make the processed count
  larger than the listing.\<close>

theorem waiting_files_count:
  assumes "nanopore_is_dir env" and "qc_df_2 env \<noteq> []"
  shows "\<exists>delta. update_waiting_files env =
            Inr (''Files awaiting processing: '' @ str_int delta,
                 ''Files processed: '' @ str_int (files_processed (qc_df_2 env)))
          \<and> delta = max 0 (int (length (nanop_files env)) - files_processed (qc_df_2 env))
          \<and> 0 \<le> delta \<and> CHR ''-'' \<notin> set (str_int delta)"
proof -
  let ?d = "waiting_delta (nanop_files env) (qc_df_2 env)"
  have d: "?d = max 0 (int (length (nanop_files env)) - files_processed (qc_df_2 env))"
    by (rule waiting_delta_eq)
  then have nonneg: "0 \<le> ?d" by simp
  from assms have "update_waiting_files env =
      Inr (''Files awaiting processing: '' @ str_int ?d,
           ''Files processed: '' @ str_int (files_processed (qc_df_2 env)))"
    by (cases "qc_df_2 env") (simp_all add: update_waiting_files_def)
  with d nonneg str_int_no_minus [OF nonneg] show ?thesis by blast
qed

theorem waiting_files_count_witness:
  "nanopore_is_dir stale_env \<and> qc_df_2 stale_env \<noteq> [] \<and>
   update_waiting_files stale_env = Inr (''Files awaiting processing: 0'', ''Files processed: 3'')"
proof -
  have a: "nanopore_is_dir stale_env" and b: "qc_df_2 stale_env \<noteq> []"
    by (simp_all add: stale_env_def)
  have fp: "files_processed (qc_df_2 stale_env) = 3"
    by (simp add: stale_env_def files_processed_def)
  from waiting_files_count [OF a b] obtain delta where
    u: "update_waiting_files stale_env =
            Inr (''Files awaiting processing: '' @ str_int delta,
                 ''Files processed: '' @ str_int (files_processed (qc_df_2 stale_env)))"
    and d: "delta = max 0 (int (length (nanop_files stale_env)) - files_processed (qc_df_2 stale_env))"
    by blast
  from d fp have "delta = 0" by (simp add: stale_env_def)
  with u fp a b show ?thesis by (simp add: str_int_0 str_int_3)
qed

subsection \<open>The table of species of interest\<close>















subsection \<open>Domain filter\<close>

lemma prune_idem: "prune allowed kept (prune allowed kept T) = prune allowed kept T"
  by (induction T arbitrary: kept) auto

lemma prune_subseq: "subseq (prune allowed kept T) T"
  by (induction T arbitrary: kept) auto

text \<open>C6.  Filtering a node table twice with the same allow-set gives the same
  table as filtering it once, and the filtered table is a subsequence of the
  original one: the surviving nodes, with their ids, in their original order.\<close>

theorem domain_filter_idempotent:
  "domain_filter (domain_filter T S) S = domain_filter T S
   \<and> subseq (domain_filter T S) T
   \<and> subseq (map nid (domain_filter T S)) (map nid T)"
proof -
  have "subseq (domain_filter T S) T" unfolding domain_filter_def by (rule prune_subseq)
  moreover from this have "subseq (map nid (domain_filter T S)) (map nid T)" by (rule subseq_map)
  ultimately show ?thesis by (simp add: domain_filter_def prune_idem)
qed

theorem domain_filter_idempotent_witness:
  "map nid (domain_filter (hierarchy_indexer two_domain_rows) [''Bacteria'']) = [0, 1, 2]
   \<and> domain_filter (domain_filter (hierarchy_indexer two_domain_rows) [''Bacteria'']) [''Bacteria'']
       = domain_filter (hierarchy_indexer two_domain_rows) [''Bacteria'']"
proof -
  have "map nid (domain_filter (hierarchy_indexer two_domain_rows) [''Bacteria'']) = [0, 1, 2]"
    by code_simp
  with domain_filter_idempotent [of "hierarchy_indexer two_domain_rows" "[''Bacteria'']"]
  show ?thesis by simp
qed

subsection \<open>Path builder\<close>

lemma retain_up_all: "t \<le> 0 \<Longrightarrow> retain_up t wanted ns = ns"
  by (induction ns arbitrary: wanted) auto

lemma retain_up_none: "\<forall>n \<in> set ns. int (reads_assigned (rcd n)) < t \<Longrightarrow> retain_up t [] ns = []"
  by (induction ns) auto

lemma retained_zero: "retained T 0 = T"
  by (simp add: retained_def retain_up_all)

lemma retained_above: "\<forall>n \<in> set T. int (reads_assigned (rcd n)) < t \<Longrightarrow> retained T t = []"
  by (simp add: retained_def retain_up_none)

text \<open>C3.  With threshold 0 the path builder returns one row for every node of
  the pruned tree, in table order; with a threshold above the reads assigned
  to every node it returns the empty table.\<close>

theorem path_builder_threshold_extremes:
  "path_builder T 0 = map (path_row_of T) T
   \<and> length (path_builder T 0) = length T
   \<and> map reads (path_builder T 0) = map (\<lambda>n. reads_assigned (rcd n)) T
   \<and> ((\<forall>n \<in> set T. int (reads_assigned (rcd n)) < t) \<longrightarrow> path_builder T t = [])"
  by (simp add: path_builder_def retained_zero retained_above path_row_of_def comp_def)

theorem path_builder_threshold_extremes_witness:
  "path_builder (domain_filter (hierarchy_indexer example_rows) [''Bacteria'']) 0 =
     [\<lparr>taxon = ''root'', parent = [], reads = 20\<rparr>,
      \<lparr>taxon = ''Bacteria'', parent = ''root'', reads = 10\<rparr>,
      \<lparr>taxon = ''E.coli'', parent = ''Bacteria'', reads = 80\<rparr>]
   \<and> map (\<lambda>n. reads_assigned (rcd n)) (domain_filter (hierarchy_indexer example_rows) [''Bacteria''])
       = [20, 10, 80]
   \<and> path_builder (domain_filter (hierarchy_indexer example_rows) [''Bacteria'']) 81 = []"
proof -
  let ?T = "domain_filter (hierarchy_indexer example_rows) [''Bacteria'']"
  have T: "?T = hierarchy_indexer example_rows" by code_simp
  have rows: "map (path_row_of ?T) ?T =
     [\<lparr>taxon = ''root'', parent = [], reads = 20\<rparr>,
      \<lparr>taxon = ''Bacteria'', parent = ''root'', reads = 10\<rparr>,
      \<lparr>taxon = ''E.coli'', parent = ''Bacteria'', reads = 80\<rparr>]" by code_simp
  have rd: "map (\<lambda>n. reads_assigned (rcd n)) ?T = [20, 10, 80]" by code_simp
  have below: "\<forall>n \<in> set ?T. int (reads_assigned (rcd n)) < 81"
    unfolding T by (simp add: hierarchy_indexer_def example_rows_def Let_def)
  from path_builder_threshold_extremes [of ?T 81] rows rd below show ?thesis by simp
qed

subsection \<open>Summary rows and totals\<close>


lemma index_rows_rcd: "map rcd (index_rows stack k rows) = rows"
  by (induction rows arbitrary: stack k) (auto simp: Let_def)

lemma hierarchy_indexer_rcd: "map rcd (hierarchy_indexer rows) = rows"
  by (simp add: hierarchy_indexer_def index_rows_rcd)


lemma prune_subset: "set (prune allowed kept T) \<subseteq> set T"
  by (induction T arbitrary: kept) auto

lemma qc_totals_value:
  "2 \<le> length raw \<Longrightarrow>
   qc_totals fo raw =
     Inr \<lparr>classified = int (reads_cumulative (raw ! 1)),
          unclassified = int (reads_cumulative (raw ! 0)),
          total = int (reads_cumulative (raw ! 1)) + int (reads_cumulative (raw ! 0)),
          pct_classified = round1 fo (percent (raw ! 1)),
          pct_unclassified = round1 fo (percent (raw ! 0))\<rparr>"
  by (simp add: qc_totals_def Let_def)

lemma take2_same:
  assumes "2 \<le> length raw" and "take 2 raw' = take 2 raw"
  shows "2 \<le> length raw' \<and> raw' ! 0 = raw ! 0 \<and> raw' ! 1 = raw ! 1"
proof -
  from assms have "length (take 2 raw') = 2" by simp
  then have len: "2 \<le> length raw'" by simp
  have n: "\<And>i xs. i < 2 \<Longrightarrow> take 2 xs ! i = (xs :: 'a list) ! i" by simp
  have "raw' ! 0 = raw ! 0" using n [of 0 raw'] n [of 0 raw] assms(2) by (simp only: zero_less_numeral)
  moreover have "raw' ! 1 = raw ! 1" using n [of 1 raw'] n [of 1 raw] assms(2) by (simp only: one_less_numeral_iff semiring_norm)
  ultimately show ?thesis using len by blast
qed

lemma qc_totals_first_two:
  assumes "2 \<le> length raw" and "take 2 raw' = take 2 raw"
  shows "qc_totals fo raw' = qc_totals fo raw"
proof -
  from take2_same [OF assms] have "2 \<le> length raw'" "raw' ! 0 = raw ! 0" "raw' ! 1 = raw ! 1"
    by blast+
  with assms(1) show ?thesis by (simp add: qc_totals_value)
qed

lemma update_qc_text_totals:
  assumes "2 \<le> length raw" and "qc_df_b \<noteq> []"
  shows "\<exists>out. update_qc_text fo cfg raw qc_df_b = Inr out
     \<and> total_reads out = ''Total reads (post filtering): ''
          @ str_int (int (reads_cumulative (raw ! 1)) + int (reads_cumulative (raw ! 0)))
     \<and> classified_reads out = ''Classified reads: '' @ str_int (int (reads_cumulative (raw ! 1)))
          @ '' ('' @ str_float fo (round1 fo (percent (raw ! 1))) @ '' %)''
     \<and> unclassified_reads out = ''Unclassified reads: '' @ str_int (int (reads_cumulative (raw ! 0)))
          @ '' ('' @ str_float fo (round1 fo (percent (raw ! 0))) @ '' %)''"
proof -
  from assms(2) obtain r rs where q: "qc_df_b = r # rs" by (cases qc_df_b) auto
  show ?thesis
    unfolding update_qc_text_def qc_totals_value [OF assms(1)] q
    by (simp add: Let_def del: last.simps)
qed

text \<open>C8.  On a report with its two summary rows, the totals shown by
  \<open>update_qc_text\<close> are read off row 0 (unclassified reads and percentage) and
  row 1 (classified reads and percentage), the total is their sum, and no
  other row has any influence on them; the taxonomic tree is built from the
  rows after the first two, so the summary rows are no nodes of it.\<close>

theorem reserved_rows_totals:
  assumes "2 \<le> length raw"
  shows "qc_totals fo raw =
           Inr \<lparr>classified = int (reads_cumulative (raw ! 1)),
                unclassified = int (reads_cumulative (raw ! 0)),
                total = int (reads_cumulative (raw ! 1)) + int (reads_cumulative (raw ! 0)),
                pct_classified = round1 fo (percent (raw ! 1)),
                pct_unclassified = round1 fo (percent (raw ! 0))\<rparr>
     \<and> (\<forall>raw'. reserved_rows raw' = reserved_rows raw \<longrightarrow> qc_totals fo raw' = qc_totals fo raw)
     \<and> (\<forall>qc_df_b cfg. qc_df_b \<noteq> [] \<longrightarrow>
          (\<exists>out. update_qc_text fo cfg raw qc_df_b = Inr out
             \<and> total_reads out = ''Total reads (post filtering): ''
                  @ str_int (int (reads_cumulative (raw ! 1)) + int (reads_cumulative (raw ! 0)))
             \<and> classified_reads out = ''Classified reads: '' @ str_int (int (reads_cumulative (raw ! 1)))
                  @ '' ('' @ str_float fo (round1 fo (percent (raw ! 1))) @ '' %)''
             \<and> unclassified_reads out = ''Unclassified reads: '' @ str_int (int (reads_cumulative (raw ! 0)))
                  @ '' ('' @ str_float fo (round1 fo (percent (raw ! 0))) @ '' %)''))
     \<and> map rcd (hierarchy_indexer (tree_rows raw)) = drop 2 raw
     \<and> length (hierarchy_indexer (tree_rows raw)) = length raw - 2
     \<and> (\<forall>parser ph allowed.
           set (domain_filtering (spec_scripts parser ph) raw allowed)
             \<subseteq> set (hierarchy_indexer (drop 2 raw)))"
proof (intro conjI allI impI)
  show "qc_totals fo raw =
           Inr \<lparr>classified = int (reads_cumulative (raw ! 1)),
                unclassified = int (reads_cumulative (raw ! 0)),
                total = int (reads_cumulative (raw ! 1)) + int (reads_cumulative (raw ! 0)),
                pct_classified = round1 fo (percent (raw ! 1)),
                pct_unclassified = round1 fo (percent (raw ! 0))\<rparr>"
    using assms by (rule qc_totals_value)
next
  fix raw' assume "reserved_rows raw' = reserved_rows raw"
  then have "take 2 raw' = take 2 raw" by (simp add: reserved_rows_def)
  with assms show "qc_totals fo raw' = qc_totals fo raw" by (rule qc_totals_first_two)
next
  fix qc_df_b :: qc_df and cfg assume "qc_df_b \<noteq> []"
  with assms show "\<exists>out. update_qc_text fo cfg raw qc_df_b = Inr out
             \<and> total_reads out = ''Total reads (post filtering): ''
                  @ str_int (int (reads_cumulative (raw ! 1)) + int (reads_cumulative (raw ! 0)))
             \<and> classified_reads out = ''Classified reads: '' @ str_int (int (reads_cumulative (raw ! 1)))
                  @ '' ('' @ str_float fo (round1 fo (percent (raw ! 1))) @ '' %)''
             \<and> unclassified_reads out = ''Unclassified reads: '' @ str_int (int (reads_cumulative (raw ! 0)))
                  @ '' ('' @ str_float fo (round1 fo (percent (raw ! 0))) @ '' %)''"
    by (rule update_qc_text_totals)
next
  show "map rcd (hierarchy_indexer (tree_rows raw)) = drop 2 raw"
    by (simp add: hierarchy_indexer_rcd tree_rows_def)
next
  have "length (hierarchy_indexer (tree_rows raw)) = length (map rcd (hierarchy_indexer (tree_rows raw)))"
    by simp
  also have "\<dots> = length raw - 2" by (simp only: hierarchy_indexer_rcd) (simp add: tree_rows_def)
  finally show "length (hierarchy_indexer (tree_rows raw)) = length raw - 2" .
next
  fix parser ph allowed
  show "set (domain_filtering (spec_scripts parser ph) raw allowed) \<subseteq> set (hierarchy_indexer (drop 2 raw))"
    by (simp add: spec_scripts_def domain_filter_def tree_rows_def prune_subset)
qed

theorem reserved_rows_totals_witness:
  "2 \<le> length summary_report
   \<and> qc_totals id_ops summary_report =
       Inr \<lparr>classified = 100, unclassified = 25, total = 125, pct_classified = 80, pct_unclassified = 20\<rparr>
   \<and> map rcd (hierarchy_indexer (tree_rows summary_report)) = example_rows"
proof -
  have len: "2 \<le> length summary_report" by (simp add: summary_report_def)
  have r0: "summary_report ! 0 = \<lparr>percent = 20, reads_cumulative = 25, reads_assigned = 25, rank_code = ''U'', tax_id = 0, name = ''unclassified'', depth = 0\<rparr>"
    and r1: "summary_report ! 1 = \<lparr>percent = 80, reads_cumulative = 100, reads_assigned = 20, rank_code = ''R'', tax_id = 1, name = ''root'', depth = 0\<rparr>"
    and d: "drop 2 summary_report = example_rows"
    by (simp_all add: summary_report_def)
  from reserved_rows_totals [OF len, of id_ops]
  have "qc_totals id_ops summary_report =
           Inr \<lparr>classified = int (reads_cumulative (summary_report ! 1)),
                unclassified = int (reads_cumulative (summary_report ! 0)),
                total = int (reads_cumulative (summary_report ! 1)) + int (reads_cumulative (summary_report ! 0)),
                pct_classified = round1 id_ops (percent (summary_report ! 1)),
                pct_unclassified = round1 id_ops (percent (summary_report ! 0))\<rparr>"
    and "map rcd (hierarchy_indexer (tree_rows summary_report)) = drop 2 summary_report"
    by blast+
  then show ?thesis using len unfolding r0 r1 d by (simp add: id_ops_def)
qed

subsection \<open>The example tree\<close>

lemma example_sankey:
  "sankey_of_filtered (spec_scripts parser ph) (domain_filter (hierarchy_indexer example_rows) [''Bacteria''])
      [''D'', ''G''] 5
    = \<lparr>labels = [''root'', ''Bacteria'', ''E.coli''], link_source = [1, 0], link_target = [2, 1],
       link_value = [80, 10], link_label = [''E.coli'', ''Bacteria''], pad = 30\<rparr>"
  by code_simp

text \<open>C1, as stated, fails: the links of the example do not come out as source
  [0,1], target [1,2], value [10,80].\<close>

theorem example_links_counterexample:
  "\<not> (link_source (sankey_of_filtered (spec_scripts toy_parser empty_sankey)
          (domain_filter (hierarchy_indexer example_rows) [''Bacteria'']) [''D'', ''G''] 5) = [0, 1]
      \<and> link_target (sankey_of_filtered (spec_scripts toy_parser empty_sankey)
          (domain_filter (hierarchy_indexer example_rows) [''Bacteria'']) [''D'', ''G''] 5) = [1, 2]
      \<and> link_value (sankey_of_filtered (spec_scripts toy_parser empty_sankey)
          (domain_filter (hierarchy_indexer example_rows) [''Bacteria'']) [''D'', ''G''] 5) = [10, 80])"
  by (simp add: example_sankey)

text \<open>C1, amended.  For the three-row tree of the example, allowed domains
  {Bacteria}, rank letters D and G and top-K 5, the pipeline (domain filter,
  rank compression, top-K selection, the sort of \<open>create_sankey_data\<close> by
  descending target, formatting) returns the labels root, Bacteria, E.coli and
  the two links of the example in descending order of their target: source
  [1,0], target [2,1], value [80,10].\<close>

theorem example_links:
  "labels (sankey_of_filtered (spec_scripts parser ph)
      (domain_filter (hierarchy_indexer example_rows) [''Bacteria'']) [''D'', ''G''] 5)
     = [''root'', ''Bacteria'', ''E.coli'']
   \<and> link_source (sankey_of_filtered (spec_scripts parser ph)
      (domain_filter (hierarchy_indexer example_rows) [''Bacteria'']) [''D'', ''G''] 5) = [1, 0]
   \<and> link_target (sankey_of_filtered (spec_scripts parser ph)
      (domain_filter (hierarchy_indexer example_rows) [''Bacteria'']) [''D'', ''G''] 5) = [2, 1]
   \<and> link_value (sankey_of_filtered (spec_scripts parser ph)
      (domain_filter (hierarchy_indexer example_rows) [''Bacteria'']) [''D'', ''G''] 5) = [80, 10]"
  by (simp add: example_sankey)

subsection \<open>Missing and unparsable report files\<close>

text \<open>C2, as stated, fails.  With live update on and a report file that does
  not parse, the refresh ends with the parser's exception instead of a
  result; with live update off and no report file, it returns the plot of the
  table loaded last instead of the placeholder.\<close>

theorem refresh_unparsable_counterexample:
  "fst (create_sankey_data (spec_scripts toy_parser empty_sankey) live_state (Some ''rep'')
          [''Bacteria''] [''D'', ''G''] 5)
     = Inl ParseError
   \<and> fst (create_sankey_data (spec_scripts toy_parser empty_sankey) paused_state None
          [''Bacteria''] [''D'', ''G''] 5)
     = Inr \<lparr>labels = [''root'', ''Bacteria'', ''E.coli''], link_source = [1, 0], link_target = [2, 1],
            link_value = [80, 10], link_label = [''E.coli'', ''Bacteria''], pad = 30\<rparr>
   \<and> placeholder_data (spec_scripts toy_parser empty_sankey) = empty_sankey"
proof -
  have t: "tree_rows summary_report = example_rows" by (simp add: tree_rows_def summary_report_def)
  have a: "fst (create_sankey_data (spec_scripts toy_parser empty_sankey) live_state (Some ''rep'')
          [''Bacteria''] [''D'', ''G''] 5) = Inl ParseError"
    by (simp add: create_sankey_data_def live_state_def spec_scripts_def toy_parser_def)
  have "fst (create_sankey_data (spec_scripts toy_parser empty_sankey) paused_state None
          [''Bacteria''] [''D'', ''G''] 5)
     = Inr (sankey_of_filtered (spec_scripts toy_parser empty_sankey)
             (domain_filter (hierarchy_indexer (tree_rows summary_report)) [''Bacteria'']) [''D'', ''G''] 5)"
    by (simp add: create_sankey_data_def paused_state_def spec_scripts_def)
  then have b: "fst (create_sankey_data (spec_scripts toy_parser empty_sankey) paused_state None
          [''Bacteria''] [''D'', ''G''] 5)
     = Inr \<lparr>labels = [''root'', ''Bacteria'', ''E.coli''], link_source = [1, 0], link_target = [2, 1],
            link_value = [80, 10], link_label = [''E.coli'', ''Bacteria''], pad = 30\<rparr>"
    by (simp only: t example_sankey)
  have c: "placeholder_data (spec_scripts toy_parser empty_sankey) = empty_sankey"
    by (simp add: spec_scripts_def)
  from a b c show ?thesis by blast
qed

text \<open>C2, amended.  With live update on: if the report file does not exist the
  refresh returns the placeholder and leaves the global variables as they
  are; if the file exists and parsing raises, the exception leaves the
  refresh and the table loaded before stays in place.  With live update off
  the file is not looked at: the refresh returns the plot of the table loaded
  last.\<close>

theorem refresh_missing_or_unparsable:
  "(\<not> update_disabled st \<longrightarrow>
      create_sankey_data g st None doms clades K = (Inr (placeholder_data g), st)
      \<and> (kreport2_df g content = Inl e \<longrightarrow>
           create_sankey_data g st (Some content) doms clades K = (Inl e, st)))
   \<and> (update_disabled st \<longrightarrow>
      create_sankey_data g st kfile doms clades K
        = (Inr (sankey_of_filtered g (domain_filtering g (raw_df st) doms) clades K), st))"
  by (simp add: create_sankey_data_def)

theorem refresh_missing_or_unparsable_witness:
  "\<not> update_disabled live_state
   \<and> create_sankey_data (spec_scripts toy_parser empty_sankey) live_state None [''Bacteria''] [''D'', ''G''] 5
       = (Inr empty_sankey, live_state)
   \<and> kreport2_df (spec_scripts toy_parser empty_sankey) ''rep'' = Inl ParseError
   \<and> create_sankey_data (spec_scripts toy_parser empty_sankey) live_state (Some ''rep'') [''Bacteria''] [''D'', ''G''] 5
       = (Inl ParseError, live_state)
   \<and> update_disabled paused_state
   \<and> snd (create_sankey_data (spec_scripts toy_parser empty_sankey) paused_state (Some ''rep'') [''Bacteria''] [''D'', ''G''] 5)
       = paused_state"
proof -
  have live: "\<not> update_disabled live_state" by (simp add: live_state_def)
  have paused: "update_disabled paused_state" by (simp add: paused_state_def)
  have fails: "kreport2_df (spec_scripts toy_parser empty_sankey) ''rep'' = Inl ParseError"
    by (simp add: spec_scripts_def toy_parser_def)
  have ph: "placeholder_data (spec_scripts toy_parser empty_sankey) = empty_sankey"
    by (simp add: spec_scripts_def)
  from refresh_missing_or_unparsable
         [of live_state "spec_scripts toy_parser empty_sankey" "[''Bacteria'']" "[''D'', ''G'']" 5 "''rep''" ParseError]
       live fails ph
  have 1: "create_sankey_data (spec_scripts toy_parser empty_sankey) live_state None [''Bacteria''] [''D'', ''G''] 5
       = (Inr empty_sankey, live_state)"
    and 2: "create_sankey_data (spec_scripts toy_parser empty_sankey) live_state (Some ''rep'') [''Bacteria''] [''D'', ''G''] 5
       = (Inl ParseError, live_state)"
    by simp_all
  from refresh_missing_or_unparsable
         [of paused_state "spec_scripts toy_parser empty_sankey" "[''Bacteria'']" "[''D'', ''G'']" 5 _ _ "Some ''rep''"]
       paused
  have 3: "snd (create_sankey_data (spec_scripts toy_parser empty_sankey) paused_state (Some ''rep'') [''Bacteria''] [''D'', ''G''] 5)
       = paused_state" by simp
  from live paused fails 1 2 3 show ?thesis by blast
qed

subsection \<open>Determinism of a refresh\<close>









subsection \<open>Top-K selection and ghost padding\<close>






















lemma four_phyla_model:
  "spec_get_result_matrix (hierarchy_indexer four_phyla_rows) [''D'', ''P'']
     = (four_phyla_matrix,
        zip (map node_key (hierarchy_indexer four_phyla_rows)) [0..<7])
   \<and> spec_create_edges (spec_get_rev_matrix (hierarchy_indexer four_phyla_rows))
       (snd (spec_get_result_matrix (hierarchy_indexer four_phyla_rows) [''D'', ''P''])) [''P'', ''D'']
     = four_phyla_edges"
  by code_simp





subsection \<open>Order of the emitted edges\<close>

lemma sort_values_target_desc_sorted:
  "sorted_wrt (\<lambda>x y. y \<le> x) (map target (sort_values_target_desc top_df))"
proof -
  have "sorted (map (\<lambda>e. - int (target e)) (sort_key (\<lambda>e. - int (target e)) top_df))"
    by (rule sorted_sort_key)
  then have "sorted_wrt (\<lambda>a b. - int (target a) \<le> - int (target b)) (sort_values_target_desc top_df)"
    by (simp add: sorted_map sort_values_target_desc_def)
  then have "sorted_wrt (\<lambda>a b. target b \<le> target a) (sort_values_target_desc top_df)"
    by (rule sorted_wrt_mono_rel [rotated]) simp
  then show ?thesis by (simp add: sorted_wrt_map)
qed

lemma sort_children_sorted:
  "sorted_wrt (\<lambda>e e'. weight e' < weight e \<or> (weight e' = weight e \<and> target e \<le> target e'))
     (sort_children es)"
proof -
  have "sorted (map (\<lambda>e. (- int (weight e), target e)) (sort_children es))"
    unfolding sort_children_def by (rule sorted_sort_key)
  then have "sorted_wrt (\<lambda>a b. (- int (weight a), target a) \<le> (- int (weight b), target b)) (sort_children es)"
    by (simp add: sorted_map)
  then show ?thesis
    by (rule sorted_wrt_mono_rel [rotated]) auto
qed

lemma sankey_of_filtered_shape:
  "\<exists>top_df label. sankey_of_filtered g T clades K
      = format_sankey g (sort_values_target_desc top_df) label 30"
  by (simp add: sankey_of_filtered_def Let_def split: prod.splits) blast

lemma filter_same_key:
  "distinct (map f xs) \<Longrightarrow> k \<in> set xs \<Longrightarrow> filter (\<lambda>x. f k = f x) xs = [k]"
proof (induction xs)
  case Nil
  then show ?case by simp
next
  case (Cons x xs)
  show ?case
  proof (cases "k = x")
    case True
    from Cons.prems(1) have "\<forall>y \<in> set xs. f x \<noteq> f y" by auto
    then have "filter (\<lambda>y. f x = f y) xs = []" by (simp add: filter_empty_conv)
    with True show ?thesis by simp
  next
    case False
    with Cons.prems have k: "k \<in> set xs" and d: "distinct (map f xs)" by simp_all
    from Cons.prems(1) have "f x \<notin> f ` set xs" by simp
    with k have "f k \<noteq> f x" by (metis imageI)
    with Cons.IH [OF d k] show ?thesis by simp
  qed
qed

lemma sort_desc_order_free:
  assumes "distinct (map target xs)" and "mset ys = mset xs"
  shows "sort_values_target_desc ys = sort_values_target_desc xs"
proof -
  let ?f = "\<lambda>e. - int (target e)"
  have dx: "distinct (map ?f xs)"
    using assms(1) by (simp add: distinct_map inj_on_def)
  from assms(2) have "mset (map ?f ys) = mset (map ?f xs)" by simp
  with dx have dy: "distinct (map ?f ys)" by (metis mset_eq_imp_distinct_iff)
  from assms(2) have sets: "set ys = set xs" by (rule mset_eq_setD)
  have "sort_key ?f ys = sort_key ?f xs"
  proof (rule properties_for_sort_key)
    show "mset (sort_key ?f xs) = mset ys" using assms(2) by simp
    show "sorted (map ?f (sort_key ?f xs))" by (rule sorted_sort_key)
    fix k assume "k \<in> set (sort_key ?f xs)"
    then have kx: "k \<in> set xs" by simp
    with sets have ky: "k \<in> set ys" by simp
    have "filter (\<lambda>x. ?f k = ?f x) (sort_key ?f xs) = filter (\<lambda>x. ?f k = ?f x) xs"
      using sort_key_stable [of ?f "?f k" xs] by (simp add: eq_commute)
    also have "\<dots> = [k]" using dx kx by (rule filter_same_key)
    also have "\<dots> = filter (\<lambda>x. ?f k = ?f x) ys" using dy ky by (rule filter_same_key [symmetric])
    finally show "filter (\<lambda>x. ?f k = ?f x) (sort_key ?f xs) = filter (\<lambda>x. ?f k = ?f x) ys" .
  qed
  then show ?thesis by (simp add: sort_values_target_desc_def)
qed

lemma tied_sankey:
  "sankey_of_filtered (spec_scripts parser ph) (domain_filter (hierarchy_indexer tied_rows) [''Bacteria''])
      [''D'', ''G''] 5
    = \<lparr>labels = [''root'', ''Bacteria'', ''Escherichia'', ''Salmonella'', ''none''],
       link_source = [1, 1, 0], link_target = [3, 2, 1], link_value = [5, 5, 10],
       link_label = [''Salmonella'', ''Escherichia'', ''Bacteria''], pad = 30\<rparr>"
  by code_simp

text \<open>C7, as stated, fails: the edges to Escherichia (node 2) and Salmonella
  (node 3) have the same weight, and the emitted list has the edge to node 3
  before the edge to node 2.\<close>

theorem emitted_ties_counterexample:
  "link_target (sankey_of_filtered (spec_scripts toy_parser empty_sankey)
      (domain_filter (hierarchy_indexer tied_rows) [''Bacteria'']) [''D'', ''G''] 5) = [3, 2, 1]
   \<and> link_value (sankey_of_filtered (spec_scripts toy_parser empty_sankey)
      (domain_filter (hierarchy_indexer tied_rows) [''Bacteria'']) [''D'', ''G''] 5) = [5, 5, 10]
   \<and> map target (sort_values_target_desc
        [\<lparr>source = 0, target = 1, weight = 10, elabel = ''Bacteria''\<rparr>,
         \<lparr>source = 1, target = 2, weight = 5, elabel = ''Escherichia''\<rparr>,
         \<lparr>source = 1, target = 3, weight = 5, elabel = ''Salmonella''\<rparr>]) = [3, 2, 1]"
proof -
  have "map target (sort_values_target_desc
        [\<lparr>source = 0, target = 1, weight = 10, elabel = ''Bacteria''\<rparr>,
         \<lparr>source = 1, target = 2, weight = 5, elabel = ''Escherichia''\<rparr>,
         \<lparr>source = 1, target = 3, weight = 5, elabel = ''Salmonella''\<rparr>]) = [3, 2, 1]"
    by code_simp
  then show ?thesis by (simp add: tied_sankey)
qed

text \<open>C7, amended.  Whatever the helper scripts return, as long as the
  formatter projects the rows of \<open>top_df\<close> in their order, the emitted edges are
  in descending order of their target node id, so that of two edges with
  equal weight the one to the larger node id comes first.  For edges with
  distinct targets the emitted order does not depend on the order in which
  the selector produced them, so it is the same on every run.  Inside the
  top-K selection the edges are ordered by descending weight, ties by
  ascending node id.\<close>

theorem emitted_edge_order:
  assumes "format_sankey g = spec_format_sankey"
  shows "sorted_wrt (\<lambda>x y. y \<le> x) (link_target (sankey_of_filtered g T clades K))
   \<and> (\<forall>xs ys. distinct (map target xs) \<and> mset ys = mset xs \<longrightarrow>
         sort_values_target_desc ys = sort_values_target_desc xs)
   \<and> (\<forall>es. sorted_wrt (\<lambda>e e'. weight e' < weight e \<or> (weight e' = weight e \<and> target e \<le> target e'))
              (sort_children es))"
proof (intro conjI allI impI)
  from sankey_of_filtered_shape [of g T clades K] obtain top_df label where
    "sankey_of_filtered g T clades K = format_sankey g (sort_values_target_desc top_df) label 30"
    by blast
  with assms have "link_target (sankey_of_filtered g T clades K)
      = map target (sort_values_target_desc top_df)"
    by (simp add: spec_format_sankey_def)
  then show "sorted_wrt (\<lambda>x y. y \<le> x) (link_target (sankey_of_filtered g T clades K))"
    by (simp only: sort_values_target_desc_sorted)
next
  fix xs ys :: "edge list"
  assume "distinct (map target xs) \<and> mset ys = mset xs"
  then show "sort_values_target_desc ys = sort_values_target_desc xs"
    by (simp add: sort_desc_order_free)
next
  fix es
  show "sorted_wrt (\<lambda>e e'. weight e' < weight e \<or> (weight e' = weight e \<and> target e \<le> target e'))
              (sort_children es)" by (rule sort_children_sorted)
qed

theorem emitted_edge_order_witness:
  "format_sankey (spec_scripts toy_parser empty_sankey) = spec_format_sankey
   \<and> sorted_wrt (\<lambda>x y. y \<le> x) (link_target (sankey_of_filtered (spec_scripts toy_parser empty_sankey)
        (domain_filter (hierarchy_indexer tied_rows) [''Bacteria'']) [''D'', ''G''] 5))
   \<and> link_target (sankey_of_filtered (spec_scripts toy_parser empty_sankey)
        (domain_filter (hierarchy_indexer tied_rows) [''Bacteria'']) [''D'', ''G''] 1) = [2, 1]"
proof -
  have f: "format_sankey (spec_scripts toy_parser empty_sankey) = spec_format_sankey"
    by (simp add: spec_scripts_def)
  have k1: "link_target (sankey_of_filtered (spec_scripts toy_parser empty_sankey)
        (domain_filter (hierarchy_indexer tied_rows) [''Bacteria'']) [''D'', ''G''] 1) = [2, 1]"
    by code_simp
  from emitted_edge_order [OF f, of "domain_filter (hierarchy_indexer tied_rows) [''Bacteria'']" "[''D'', ''G'']" 5]
  have "sorted_wrt (\<lambda>x y. y \<le> x) (link_target (sankey_of_filtered (spec_scripts toy_parser empty_sankey)
        (domain_filter (hierarchy_indexer tied_rows) [''Bacteria'']) [''D'', ''G''] 5))"
    by blast
  with f k1 show ?thesis by blast
qed

end
